theory Spec2Isabelle
  imports Complex_Main
begin

section \<open>Exceptions, observations and the effect type\<close>

text \<open>
  The Python exceptions that occur in \<^verbatim>\<open>document_processor.py\<close> and
  \<^verbatim>\<open>document_analyzer.py\<close>. Each constructor is an exception class and carries
  the message; a message built by an f-string is kept as its template, holes included.
  \<open>FileDataError\<close> is \<^verbatim>\<open>pymupdf.FileDataError\<close>, \<open>FileNotFoundError\<close> the Python
  builtin, \<open>InvalidDocumentError\<close> and \<open>ContentExtractionError\<close> the two subclasses of
  \<^verbatim>\<open>DocumentProcessingError\<close> of \<^verbatim>\<open>exceptions.py\<close>, and \<open>OtherException\<close> any
  other subclass of \<^verbatim>\<open>Exception\<close> an external library may raise.
\<close>

datatype exn =
    FileNotFoundError string
  | FileDataError string
  | InvalidDocumentError string
  | ContentExtractionError string
  | OtherException string

fun is_InvalidDocumentError :: "exn \<Rightarrow> bool" where
  "is_InvalidDocumentError (InvalidDocumentError m) = True"
| "is_InvalidDocumentError e = False"

fun is_ContentExtractionError :: "exn \<Rightarrow> bool" where
  "is_ContentExtractionError (ContentExtractionError m) = True"
| "is_ContentExtractionError e = False"

fun is_FileNotFoundError :: "exn \<Rightarrow> bool" where
  "is_FileNotFoundError (FileNotFoundError m) = True"
| "is_FileNotFoundError e = False"

fun is_FileDataError :: "exn \<Rightarrow> bool" where
  "is_FileDataError (FileDataError m) = True"
| "is_FileDataError e = False"

text \<open>\<^verbatim>\<open>isinstance(e, DocumentProcessingError)\<close>: the base class of \<^verbatim>\<open>exceptions.py\<close>.\<close>

definition is_DocumentProcessingError :: "exn \<Rightarrow> bool" where
  "is_DocumentProcessingError e = (is_InvalidDocumentError e \<or> is_ContentExtractionError e)"

datatype level = DEBUG | INFO | WARNING | ERROR

text \<open>
  The external capabilities the two classes call: pymupdf (open, page text, page pixmap),
  the readability classifier \<^verbatim>\<open>dspy.Predict(ValidContent)\<close>, the DocTR OCR predictor,
  and the four inference contracts of the analyzer.
\<close>

datatype capability =
    Open | GetText | GetPixmap | Classifier | Ocr
  | TextAnalysis | ImageAnalysis | Fusion | Validation

text \<open>What a run leaves behind besides its result: log records and calls of capabilities.\<close>

datatype event = Log level string | Call capability

text \<open>
  A computation either raises (\<open>Inl\<close>) or returns (\<open>Inr\<close>), and lists the events it
  produced up to that point, oldest first.
\<close>

type_synonym 'a io = "(exn + 'a) \<times> event list"

definition io_return :: "'a \<Rightarrow> 'a io" where
  "io_return x = (Inr x, [])"

definition io_raise :: "exn \<Rightarrow> 'a io" where
  "io_raise e = (Inl e, [])"

definition io_log :: "level \<Rightarrow> string \<Rightarrow> unit io" where
  "io_log l m = (Inr (), [Log l m])"

text \<open>Calling a capability whose answer (a value or an exception) is \<open>r\<close>.\<close>

definition io_call :: "capability \<Rightarrow> exn + 'a \<Rightarrow> 'a io" where
  "io_call c r = (r, [Call c])"

text \<open>Sequencing: the second statement runs only when the first did not raise.\<close>

definition io_bind :: "'a io \<Rightarrow> ('a \<Rightarrow> 'b io) \<Rightarrow> 'b io" where
  "io_bind m f =
     (case m of
        (Inl e, tr) \<Rightarrow> (Inl e, tr)
      | (Inr x, tr) \<Rightarrow> (case f x of (r, tr') \<Rightarrow> (r, tr @ tr')))"

text \<open>
  \<^verbatim>\<open>try: m  except Exception as e: h(e)\<close>. A handler that catches one class only
  re-raises every other exception itself.
\<close>

definition try_except :: "'a io \<Rightarrow> (exn \<Rightarrow> 'a io) \<Rightarrow> 'a io" where
  "try_except m h =
     (case m of
        (Inl e, tr) \<Rightarrow> (case h e of (r, tr') \<Rightarrow> (r, tr @ tr'))
      | (Inr x, tr) \<Rightarrow> (Inr x, tr))"

section \<open>Python strings\<close>

text \<open>
  A \<open>char\<close> stands for the code point of the same number, so the texts of the model are
  the Python strings over code points below 256. \<open>isspace\<close> is \<^verbatim>\<open>str.isspace\<close> on
  one such character, which is what \<^verbatim>\<open>str.strip()\<close> without argument removes.
\<close>

definition isspace :: "char \<Rightarrow> bool" where
  "isspace c =
     (let n = (of_char c :: nat)
      in (9 \<le> n \<and> n \<le> 13) \<or> (28 \<le> n \<and> n \<le> 32) \<or> n = 133 \<or> n = 160)"

definition lstrip :: "string \<Rightarrow> string" where
  "lstrip s = dropWhile isspace s"

definition rstrip :: "string \<Rightarrow> string" where
  "rstrip s = rev (dropWhile isspace (rev s))"

definition strip :: "string \<Rightarrow> string" where
  "strip s = rstrip (lstrip s)"

text \<open>The one-character string \<^verbatim>\<open>"\n"\<close>.\<close>

definition newline :: string where
  "newline = [CHR 0x0A]"

section \<open>Configuration\<close>

text \<open>
  The class attributes of \<^verbatim>\<open>AppConfig\<close> that the two classes read. The first two come
  from the environment through \<^verbatim>\<open>int(...)\<close>, so they are integers of either sign.
\<close>

record AppConfig =
  MAX_FILE_SIZE :: int
  MAX_FILE_PAGE :: int
  MIN_CONFIDENCE :: real

text \<open>The values when the environment sets none of them.\<close>

definition default_config :: AppConfig where
  "default_config =
     \<lparr>MAX_FILE_SIZE = 2 * 1024 * 1024, MAX_FILE_PAGE = 10, MIN_CONFIDENCE = 0.6\<rparr>"

section \<open>The content extractor: \<^verbatim>\<open>DocumentProcessor\<close>\<close>

text \<open>
  A pymupdf page: what \<^verbatim>\<open>page.get_text()\<close> answers, and what rendering it
  (\<^verbatim>\<open>page.get_pixmap\<close> followed by \<^verbatim>\<open>Image.frombytes\<close>) answers.
\<close>

record 'img page =
  get_text :: "exn + string"
  get_pixmap :: "exn + 'img"

text \<open>
  The file system and pymupdf, as \<open>process\<close> sees them. \<^verbatim>\<open>Path.exists()\<close> and
  \<^verbatim>\<open>Path.stat().st_size\<close> answer or raise (an \<^verbatim>\<open>OSError\<close> for a name that is too
  long, say). \<^verbatim>\<open>pymupdf.open\<close> answers a document or raises; a document is the list of
  what loading each of its pages answers, \<^verbatim>\<open>len(doc)\<close> being the length of the list
  and \<^verbatim>\<open>for page in doc\<close> loading the pages in turn: the page, or the exception that
  loading it raises (a \<^verbatim>\<open>ValueError\<close> for an encrypted document).
\<close>

record 'img world =
  path_exists :: "string \<Rightarrow> exn + bool"
  st_size :: "string \<Rightarrow> exn + int"
  pymupdf_open :: "string \<Rightarrow> exn + (exn + 'img page) list"

text \<open>
  The two attributes set by \<^verbatim>\<open>__init__\<close>: \<open>self_validate\<close> is
  \<^verbatim>\<open>dspy.Predict(ValidContent)\<close> read at \<^verbatim>\<open>.is_valid\<close>, and \<open>self_ocr\<close> is the DocTR
  pipeline of \<^verbatim>\<open>_ocr_fallback\<close> (\<^verbatim>\<open>DocumentFile.from_pdf\<close>, the predictor,
  \<^verbatim>\<open>render()\<close>) on the file at a path.
\<close>

record DocumentProcessor =
  self_validate :: "string \<Rightarrow> exn + bool"
  self_ocr :: "string \<Rightarrow> exn + string"

text \<open>
  Neither test is inside a \<^verbatim>\<open>try\<close>, so what they raise leaves \<open>validate_file\<close> as it
  is. The message of the size failure reads \<^verbatim>\<open>stat()\<close> a second time.
\<close>

definition validate_file :: "AppConfig \<Rightarrow> 'img world \<Rightarrow> string \<Rightarrow> unit io" where
  "validate_file cfg w pdf_path =
     io_bind (path_exists w pdf_path, []) (\<lambda>found.
     if \<not> found then
       io_raise (FileNotFoundError ''File not found: {pdf_path}'')
     else
       io_bind (st_size w pdf_path, []) (\<lambda>st.
       if st > MAX_FILE_SIZE cfg then
         io_bind (st_size w pdf_path, []) (\<lambda>_.
         io_raise (InvalidDocumentError
           ''File size {pdf_path.stat().st_size} exceeds limit {AppConfig.MAX_FILE_SIZE} bytes.''))
       else io_return ()))"

definition extract_page_text :: "'img page \<Rightarrow> string io" where
  "extract_page_text page =
     try_except
       (io_bind (io_call GetText (get_text page)) (\<lambda>raw.
          let text = strip raw in
          io_bind (if text = [] then io_log DEBUG ''Empty page encountered.''
                   else io_return ()) (\<lambda>_.
          io_return (text @ newline))))
       (\<lambda>e. io_bind (io_log ERROR ''Text extraction failed: {e}'') (\<lambda>_.
             io_raise (ContentExtractionError ''Text extraction failed'')))"

definition render_page_image :: "'img page \<Rightarrow> 'img io" where
  "render_page_image page =
     try_except
       (io_call GetPixmap (get_pixmap page))
       (\<lambda>e. io_bind (io_log ERROR ''Image rendering failed: {e}'') (\<lambda>_.
             io_raise (ContentExtractionError ''Image rendering failed'')))"

definition ocr_fallback :: "DocumentProcessor \<Rightarrow> string \<Rightarrow> string io" where
  "ocr_fallback self pdf_path =
     try_except
       (io_call Ocr (self_ocr self pdf_path))
       (\<lambda>e. io_bind (io_log ERROR ''OCR extraction failed: {e}'') (\<lambda>_.
             io_raise (ContentExtractionError ''OCR extraction failed: {str(e)}'')))"

definition is_valid_content :: "DocumentProcessor \<Rightarrow> string \<Rightarrow> bool io" where
  "is_valid_content self text =
     (if strip text = [] then io_return False
      else io_call Classifier (self_validate self text))"

text \<open>
  The loop \<^verbatim>\<open>for page in doc\<close> of \<open>process\<close>, with its two accumulators. Loading the
  next page is the loop's own step, outside the \<^verbatim>\<open>try\<close> blocks of the two page
  methods: what it raises leaves the loop as it is.
\<close>

fun extract_pages ::
  "(exn + 'img page) list \<Rightarrow> string \<Rightarrow> 'img list \<Rightarrow> (string \<times> 'img list) io" where
  "extract_pages [] text images = io_return (text, images)"
| "extract_pages (loaded # rest) text images =
     io_bind (loaded, []) (\<lambda>page.
     io_bind (extract_page_text page) (\<lambda>t.
     io_bind (render_page_image page) (\<lambda>img.
     extract_pages rest (text @ t) (images @ [img]))))"

definition process ::
  "AppConfig \<Rightarrow> 'img world \<Rightarrow> DocumentProcessor \<Rightarrow> string \<Rightarrow> (string \<times> 'img list) io" where
  "process cfg w self pdf_path =
     io_bind (validate_file cfg w pdf_path) (\<lambda>_.
     try_except
       (io_bind (io_call Open (pymupdf_open w pdf_path)) (\<lambda>doc.
          if int (length doc) > MAX_FILE_PAGE cfg then
            io_bind (io_log ERROR
              ''File page count exceeds {AppConfig.MAX_FILE_PAGE} pages limit.'') (\<lambda>_.
            io_raise (InvalidDocumentError
              ''File page count exceeds limit {AppConfig.MAX_FILE_PAGE} pages.''))
          else
            io_bind (io_log INFO ''Extracting text and images from: {pdf_path}'') (\<lambda>_.
            io_bind (extract_pages doc [] []) (\<lambda>(text, images).
            io_bind (is_valid_content self text) (\<lambda>valid.
            if \<not> valid then
              io_bind (io_log INFO
                ''Text extraction quality insufficient, attempting OCR extraction...'') (\<lambda>_.
              io_bind (ocr_fallback self pdf_path) (\<lambda>text'.
              io_return (text', images)))
            else io_return (text, images))))))
       (\<lambda>e. case e of
          FileDataError m \<Rightarrow> io_raise (InvalidDocumentError ''Invalid PDF structure: {e}'')
        | _ \<Rightarrow> io_raise e))"

section \<open>The analysis pipeline: \<^verbatim>\<open>DocumentAnalyzer\<close>\<close>

text \<open>\<^verbatim>\<open>Literal["good", "poor", "unusable"]\<close>, the type of \<^verbatim>\<open>text_quality\<close>.\<close>

datatype quality = Good | Poor | Unusable

fun quality_str :: "quality \<Rightarrow> string" where
  "quality_str Good = ''good''"
| "quality_str Poor = ''poor''"
| "quality_str Unusable = ''unusable''"

text \<open>
  The output fields of the signatures. \<open>analysis\<close> is a prediction of
  \<^verbatim>\<open>DocImagesAnalysis\<close> or \<^verbatim>\<open>DocAnalysisCombined\<close>, \<open>text_analysis\<close> one of
  \<^verbatim>\<open>DocTextAnalysis\<close> (the same fields and \<^verbatim>\<open>text_quality\<close>), \<open>validation\<close> one
  of \<^verbatim>\<open>AnalysisValidation\<close>. A confidence score is a real number.
\<close>

record analysis =
  description :: string
  summary :: string
  notable_info :: "string list"

record text_analysis = analysis +
  text_quality :: quality

record validation =
  confidence_score :: real
  validation_notes :: "string list"

text \<open>Python dictionaries and the values in them; a dictionary lists its items in order.\<close>

datatype json =
    JStr string
  | JNum real
  | JList "json list"
  | JDict "(string \<times> json) list"

fun keys :: "json \<Rightarrow> string list" where
  "keys (JDict items) = map fst items"
| "keys j = []"

fun lookup :: "json \<Rightarrow> string \<Rightarrow> json option" where
  "lookup (JDict items) k = map_of items k"
| "lookup j k = None"

text \<open>
  The four modules set by \<^verbatim>\<open>__init__\<close> (the analyzer's \<^verbatim>\<open>self.validate\<close> is
  \<open>self_validate_analysis\<close> here, the name \<open>self_validate\<close> being the extractor's), and
  \<^verbatim>\<open>dspy.Image.from_PIL\<close>.
\<close>

record ('img, 'dimg) DocumentAnalyzer =
  self_analyze_text :: "string \<Rightarrow> exn + text_analysis"
  self_analyze_images :: "'dimg list \<Rightarrow> exn + analysis"
  self_combine :: "json \<Rightarrow> json \<Rightarrow> exn + analysis"
  self_validate_analysis :: "string \<Rightarrow> 'img list \<Rightarrow> json \<Rightarrow> exn + validation"
  from_PIL :: "'img \<Rightarrow> exn + 'dimg"

text \<open>A list comprehension over a function that may raise: the first exception ends it.\<close>

fun map_exn :: "('a \<Rightarrow> exn + 'b) \<Rightarrow> 'a list \<Rightarrow> exn + 'b list" where
  "map_exn f [] = Inr []"
| "map_exn f (x # xs) =
     (case f x of
        Inl e \<Rightarrow> Inl e
      | Inr y \<Rightarrow> (case map_exn f xs of Inl e \<Rightarrow> Inl e | Inr ys \<Rightarrow> Inr (y # ys)))"

definition analyze_text :: "('img, 'dimg) DocumentAnalyzer \<Rightarrow> string \<Rightarrow> text_analysis io" where
  "analyze_text self text =
     try_except
       (io_bind (io_log INFO ''Starting analysis from text modality...'') (\<lambda>_.
        io_call TextAnalysis (self_analyze_text self text)))
       (\<lambda>e. io_bind (io_log ERROR ''Text analysis failed: {e}'') (\<lambda>_.
             io_return \<lparr>description = ''unknown'', summary = ''Text analysis unavailable'',
                        notable_info = [], text_quality = Unusable\<rparr>))"

definition analyze_images :: "('img, 'dimg) DocumentAnalyzer \<Rightarrow> 'img list \<Rightarrow> analysis io" where
  "analyze_images self images =
     try_except
       (io_bind (io_log INFO ''Starting analysis from image modality...'') (\<lambda>_.
        io_bind (map_exn (from_PIL self) images, []) (\<lambda>dspy_images.
        io_call ImageAnalysis (self_analyze_images self dspy_images))))
       (\<lambda>e. io_bind (io_log ERROR ''Image analysis failed: {e}'') (\<lambda>_.
             io_return \<lparr>description = ''unknown'', summary = ''Text analysis unavailable'',
                        notable_info = []\<rparr>))"

definition combine_results ::
  "('img, 'dimg) DocumentAnalyzer \<Rightarrow> text_analysis \<Rightarrow> analysis \<Rightarrow> analysis io" where
  "combine_results self r_text r_images =
     try_except
       (io_bind (io_log INFO ''Combining analysis results...'') (\<lambda>_.
        if text_quality r_text = Unusable then
          io_bind (io_log WARNING
            ''Extracted text unsusable, only using visual analysis results.'') (\<lambda>_.
          io_return r_images)
        else
          io_call Fusion (self_combine self
            (JDict [(''text_quality'', JStr (quality_str (text_quality r_text))),
                    (''description'', JStr (description r_text)),
                    (''summary'', JStr (summary r_text)),
                    (''notable_info'', JList (map JStr (notable_info r_text)))])
            (JDict [(''description'', JStr (description r_images)),
                    (''summary'', JStr (summary r_images)),
                    (''notable_info'', JList (map JStr (notable_info r_images)))]))))
       (\<lambda>e. io_bind (io_log ERROR ''Combining analysis results failed: {e}'') (\<lambda>_.
             io_return \<lparr>description = ''unknown'', summary = ''Text analysis unavailable'',
                        notable_info = []\<rparr>))"

definition validate_results ::
  "('img, 'dimg) DocumentAnalyzer \<Rightarrow> string \<Rightarrow> 'img list \<Rightarrow> analysis \<Rightarrow> validation io" where
  "validate_results self text images r_combined =
     try_except
       (let results = JDict [(''description'', JStr (description r_combined)),
                             (''summary'', JStr (summary r_combined)),
                             (''notable_info'', JList (map JStr (notable_info r_combined)))]
        in io_call Validation (self_validate_analysis self text images results))
       (\<lambda>e. io_bind (io_log WARNING ''Results validation failed: {e}'') (\<lambda>_.
             io_return \<lparr>confidence_score = 0.0, validation_notes = []\<rparr>))"

definition format_output :: "analysis \<Rightarrow> validation \<Rightarrow> json" where
  "format_output r_combined r_validation =
     JDict [(''description'', JStr (description r_combined)),
            (''summary'', JStr (summary r_combined)),
            (''notable_info'', JList (map JStr (notable_info r_combined))),
            (''confidence'',
               JDict [(''score'', JNum (confidence_score r_validation)),
                      (''notes'', JList (map JStr (validation_notes r_validation)))])]"

definition forward ::
  "AppConfig \<Rightarrow> ('img, 'dimg) DocumentAnalyzer \<Rightarrow> string \<Rightarrow> 'img list \<Rightarrow> json io" where
  "forward cfg self text images =
     io_bind (analyze_text self text) (\<lambda>text_results.
     io_bind (analyze_images self images) (\<lambda>images_results.
     io_bind (combine_results self text_results images_results) (\<lambda>combined_results.
     io_bind (validate_results self text images combined_results) (\<lambda>validation_results.
     io_bind (if confidence_score validation_results < MIN_CONFIDENCE cfg then
                io_log WARNING
                  ''Confidence score {validation_results.confidence_score} lower than threshhold {AppConfig.MIN_CONFIDENCE}''
              else io_return ()) (\<lambda>_.
     io_return (format_output combined_results validation_results))))))"

section \<open>Concrete inputs\<close>

text \<open>
  A page with text and a page without. A file system in which a path longer than 255
  characters makes the existence test raise, every other path but \<^verbatim>\<open>missing.pdf\<close>
  exists, \<^verbatim>\<open>huge.pdf\<close> has three megabytes and every other file a thousand bytes, and
  opening a file answers as given. Extractors whose classifier accepts, rejects or fails,
  and one whose OCR fails. Images are numbered.
\<close>

definition page_hello :: "nat page" where
  "page_hello = \<lparr>get_text = Inr ''  Hello '', get_pixmap = Inr 1\<rparr>"

definition page_blank :: "nat page" where
  "page_blank = \<lparr>get_text = Inr '' '', get_pixmap = Inr 2\<rparr>"

definition world_with :: "exn + (exn + nat page) list \<Rightarrow> nat world" where
  "world_with opened =
     \<lparr>path_exists =
        (\<lambda>p. if 255 < length p then
                Inl (OtherException ''OSError: [Errno 36] File name too long'')
              else Inr (p \<noteq> ''missing.pdf'')),
      st_size = (\<lambda>p. if p = ''huge.pdf'' then Inr (3 * 1024 * 1024) else Inr 1000),
      pymupdf_open = (\<lambda>p. opened)\<rparr>"

definition accepting :: DocumentProcessor where
  "accepting = \<lparr>self_validate = (\<lambda>t. Inr True), self_ocr = (\<lambda>p. Inr ''ocr'')\<rparr>"

definition rejecting :: DocumentProcessor where
  "rejecting = \<lparr>self_validate = (\<lambda>t. Inr False), self_ocr = (\<lambda>p. Inr ''o'')\<rparr>"

definition failing :: DocumentProcessor where
  "failing =
     \<lparr>self_validate = (\<lambda>t. Inl (OtherException ''RateLimitError'')),
      self_ocr = (\<lambda>p. Inr ''ocr'')\<rparr>"

definition ocr_failing :: DocumentProcessor where
  "ocr_failing =
     \<lparr>self_validate = (\<lambda>t. Inr False),
      self_ocr = (\<lambda>p. Inl (OtherException ''RuntimeError''))\<rparr>"

text \<open>
  An analyzer whose text analysis fails and whose validation scores 0.3, and one whose
  four contracts all answer, the text being of good quality.
\<close>

definition image_answer :: analysis where
  "image_answer =
     \<lparr>description = ''An invoice.'', summary = ''Seen on the page.'',
      notable_info = [''Issuer: ACME'']\<rparr>"

definition fused_answer :: analysis where
  "fused_answer =
     \<lparr>description = ''An invoice from ACME.'', summary = ''Read and seen.'',
      notable_info = [''Issuer: ACME'', ''Date: 2024-01-01'']\<rparr>"

definition text_failing :: "(nat, nat) DocumentAnalyzer" where
  "text_failing =
     \<lparr>self_analyze_text = (\<lambda>t. Inl (OtherException ''Timeout'')),
      self_analyze_images = (\<lambda>imgs. Inr image_answer),
      self_combine = (\<lambda>a b. Inr fused_answer),
      self_validate_analysis =
        (\<lambda>t imgs r. Inr \<lparr>confidence_score = 0.3, validation_notes = [''No text.'']\<rparr>),
      from_PIL = (\<lambda>img. Inr img)\<rparr>"

definition all_answering :: "(nat, nat) DocumentAnalyzer" where
  "all_answering =
     \<lparr>self_analyze_text =
        (\<lambda>t. Inr \<lparr>description = ''A bill.'', summary = ''Read from the text.'',
                    notable_info = [''Date: 2024-01-01''], text_quality = Good\<rparr>),
      self_analyze_images = (\<lambda>imgs. Inr image_answer),
      self_combine = (\<lambda>a b. Inr fused_answer),
      self_validate_analysis =
        (\<lambda>t imgs r. Inr \<lparr>confidence_score = 0.9, validation_notes = []\<rparr>),
      from_PIL = (\<lambda>img. Inr img)\<rparr>"

section \<open>Laws of the effect type\<close>

lemma fst_io_bind:
  "fst (io_bind m f) = (case fst m of Inl e \<Rightarrow> Inl e | Inr x \<Rightarrow> fst (f x))"
  by (cases m) (simp add: io_bind_def split: sum.splits prod.splits)

lemma snd_io_bind:
  "snd (io_bind m f) = (case fst m of Inl e \<Rightarrow> snd m | Inr x \<Rightarrow> snd m @ snd (f x))"
  by (cases m) (simp add: io_bind_def split: sum.splits prod.splits)

lemma fst_try_except:
  "fst (try_except m h) = (case fst m of Inl e \<Rightarrow> fst (h e) | Inr x \<Rightarrow> Inr x)"
  by (cases m) (simp add: try_except_def split: sum.splits prod.splits)

lemma snd_try_except:
  "snd (try_except m h) = (case fst m of Inl e \<Rightarrow> snd m @ snd (h e) | Inr x \<Rightarrow> snd m)"
  by (cases m) (simp add: try_except_def split: sum.splits prod.splits)

lemmas io_simps =
  fst_io_bind snd_io_bind fst_try_except snd_try_except
  io_return_def io_raise_def io_log_def io_call_def

section \<open>Facts about \<open>strip\<close>\<close>

lemma set_dropWhile_all: "(\<forall>x\<in>set (dropWhile P xs). P x) \<longleftrightarrow> (\<forall>x\<in>set xs. P x)"
  by (induction xs) auto

lemma strip_empty_iff: "strip s = [] \<longleftrightarrow> (\<forall>c\<in>set s. isspace c)"
  by (simp add: strip_def rstrip_def lstrip_def set_dropWhile_all)

lemma filter_dropWhile_not: "filter (\<lambda>x. \<not> P x) (dropWhile P xs) = filter (\<lambda>x. \<not> P x) xs"
  by (induction xs) auto

lemma filter_strip: "filter (\<lambda>c. \<not> isspace c) (strip s) = filter (\<lambda>c. \<not> isspace c) s"
  by (simp add: strip_def rstrip_def lstrip_def filter_dropWhile_not
      flip: rev_filter)

lemma strip_strip_newline: "strip (strip raw @ newline) = [] \<longleftrightarrow> strip raw = []"
proof
  assume "strip (strip raw @ newline) = []"
  then have "\<forall>c\<in>set (strip raw). isspace c"
    by (simp add: strip_empty_iff)
  then have "filter (\<lambda>c. \<not> isspace c) (strip raw) = []"
    by (simp add: filter_empty_conv)
  then have "filter (\<lambda>c. \<not> isspace c) raw = []"
    by (simp add: filter_strip)
  then show "strip raw = []"
    by (simp add: strip_empty_iff filter_empty_conv)
next
  assume blank: "strip raw = []"
  have "strip newline = []"
    by (simp add: strip_empty_iff newline_def isspace_def)
  with blank show "strip (strip raw @ newline) = []"
    by simp
qed

section \<open>Facts about the extraction loop\<close>

lemma extract_page_text_ok:
  "get_text page = Inr raw \<Longrightarrow> fst (extract_page_text page) = Inr (strip raw @ newline)"
  by (simp add: extract_page_text_def io_simps Let_def)

lemma render_page_image_ok:
  "get_pixmap page = Inr img \<Longrightarrow> fst (render_page_image page) = Inr img"
  by (simp add: render_page_image_def io_simps)

text \<open>
  When every page loads and answers, the loop returns the page texts and images in page
  order.
\<close>

lemma extract_pages_ok:
  "map get_text pages = map Inr texts \<Longrightarrow> map get_pixmap pages = map Inr imgs \<Longrightarrow>
   fst (extract_pages (map Inr pages) text images) =
     Inr (text @ concat (map (\<lambda>t. strip t @ newline) texts), images @ imgs)"
proof (induction pages arbitrary: texts imgs "text" images)
  case Nil
  then show ?case by (simp add: io_return_def)
next
  case (Cons page rest)
  from Cons.prems obtain t ts i ims where
    eqs: "texts = t # ts" "imgs = i # ims" and
    hd: "get_text page = Inr t" "get_pixmap page = Inr i" and
    tl: "map get_text rest = map Inr ts" "map get_pixmap rest = map Inr ims"
    by (cases texts; cases imgs) auto
  show ?case
    by (simp add: fst_io_bind extract_page_text_ok[OF hd(1)] render_page_image_ok[OF hd(2)]
        Cons.IH[OF tl] eqs)
qed

text \<open>The loop calls nothing but the two page capabilities.\<close>

lemma extract_page_text_events:
  "Call c \<in> set (snd (extract_page_text page)) \<Longrightarrow> c = GetText"
  by (auto simp add: extract_page_text_def io_simps Let_def split: sum.splits if_splits)

lemma render_page_image_events:
  "Call c \<in> set (snd (render_page_image page)) \<Longrightarrow> c = GetPixmap"
  by (auto simp add: render_page_image_def io_simps split: sum.splits)

lemma extract_pages_events:
  "Call c \<in> set (snd (extract_pages doc text images)) \<Longrightarrow> c = GetText \<or> c = GetPixmap"
proof (induction doc arbitrary: "text" images)
  case Nil
  then show ?case by (simp add: io_return_def)
next
  case (Cons loaded rest)
  then show ?case
    by (auto simp add: snd_io_bind split: sum.splits
        dest: extract_page_text_events render_page_image_events)
qed

lemma length_concat_newline:
  "length texts \<le> length (concat (map (\<lambda>t. strip t @ newline) texts))"
  by (induction texts) (simp_all add: newline_def)

text \<open>
  What the loop raises is a \<open>ContentExtractionError\<close> of a page method, or what loading a
  page raised.
\<close>

lemma extract_page_text_raises:
  "fst (extract_page_text page) = Inl e \<Longrightarrow> is_ContentExtractionError e"
  by (auto simp add: extract_page_text_def io_simps Let_def split: sum.splits if_splits)

lemma render_page_image_raises:
  "fst (render_page_image page) = Inl e \<Longrightarrow> is_ContentExtractionError e"
  by (auto simp add: render_page_image_def io_simps split: sum.splits)

lemma extract_pages_raises:
  "fst (extract_pages doc text images) = Inl e \<Longrightarrow>
   is_ContentExtractionError e \<or> Inl e \<in> set doc"
proof (induction doc arbitrary: "text" images)
  case Nil
  then show ?case by (simp add: io_return_def)
next
  case (Cons loaded rest)
  then show ?case
    by (auto simp add: fst_io_bind split: sum.splits
        dest: extract_page_text_raises render_page_image_raises)
qed

section \<open>Facts about \<open>process\<close>\<close>

lemma fst_ocr_fallback:
  "fst (ocr_fallback self p) =
     (case self_ocr self p of
        Inl e \<Rightarrow> Inl (ContentExtractionError ''OCR extraction failed: {str(e)}'')
      | Inr t \<Rightarrow> Inr t)"
  by (simp add: ocr_fallback_def io_simps split: sum.splits)

lemma snd_ocr_fallback:
  "snd (ocr_fallback self p) =
     (case self_ocr self p of
        Inl e \<Rightarrow> [Call Ocr, Log ERROR ''OCR extraction failed: {e}'']
      | Inr t \<Rightarrow> [Call Ocr])"
  by (simp add: ocr_fallback_def io_simps split: sum.splits)

lemma ocr_fallback_raises:
  "fst (ocr_fallback self p) = Inl e \<Longrightarrow> is_ContentExtractionError e"
  by (auto simp add: fst_ocr_fallback split: sum.splits)

text \<open>The file is accepted when it exists and is not larger than the ceiling.\<close>

lemma validate_file_accepts:
  "path_exists w p = Inr True \<Longrightarrow> st_size w p = Inr st \<Longrightarrow> st \<le> MAX_FILE_SIZE cfg \<Longrightarrow>
   validate_file cfg w p = (Inr (), [])"
  by (simp add: validate_file_def io_bind_def io_return_def)

text \<open>What \<open>validate_file\<close> raises, and when.\<close>

lemma validate_file_raises:
  "fst (validate_file cfg w p) = Inl e \<Longrightarrow>
   (path_exists w p = Inr False \<and> is_FileNotFoundError e)
   \<or> path_exists w p = Inl e \<or> st_size w p = Inl e \<or> is_InvalidDocumentError e"
  by (auto simp add: validate_file_def io_simps split: sum.splits if_splits)

lemma snd_validate_file: "snd (validate_file cfg w p) = []"
  by (auto simp add: validate_file_def io_simps split: sum.splits if_splits)

text \<open>
  What \<open>process\<close> returns, and what it leaves behind, once the file is accepted and the
  loop has returned the native text and the images.
\<close>

lemma fst_process_extracted:
  assumes "path_exists w p = Inr True" and "st_size w p = Inr st"
    and "st \<le> MAX_FILE_SIZE cfg"
    and "pymupdf_open w p = Inr doc" and "int (length doc) \<le> MAX_FILE_PAGE cfg"
    and "fst (extract_pages doc [] []) = Inr (native, imgs)"
  shows "fst (process cfg w self p) =
     (if strip native = [] then
        (case fst (ocr_fallback self p) of Inl e \<Rightarrow> Inl e | Inr t \<Rightarrow> Inr (t, imgs))
      else case self_validate self native of
             Inl (FileDataError m) \<Rightarrow> Inl (InvalidDocumentError ''Invalid PDF structure: {e}'')
           | Inl e \<Rightarrow> Inl e
           | Inr valid \<Rightarrow>
               if valid then Inr (native, imgs)
               else (case fst (ocr_fallback self p) of
                       Inl e \<Rightarrow> Inl e | Inr t \<Rightarrow> Inr (t, imgs)))"
  using assms(4-6)
  by (simp add: process_def validate_file_accepts[OF assms(1-3)] is_valid_content_def
      io_simps fst_ocr_fallback split: sum.splits exn.splits)

lemma snd_process_extracted:
  assumes "path_exists w p = Inr True" and "st_size w p = Inr st"
    and "st \<le> MAX_FILE_SIZE cfg"
    and "pymupdf_open w p = Inr doc" and "int (length doc) \<le> MAX_FILE_PAGE cfg"
    and "fst (extract_pages doc [] []) = Inr (native, imgs)"
  shows "snd (process cfg w self p) =
     [Call Open, Log INFO ''Extracting text and images from: {pdf_path}'']
     @ snd (extract_pages doc [] [])
     @ (if strip native = [] then [] else [Call Classifier])
     @ (if strip native = [] \<or> self_validate self native = Inr False then
          Log INFO ''Text extraction quality insufficient, attempting OCR extraction...''
          # snd (ocr_fallback self p)
        else [])"
  using assms(4-6)
  by (simp add: process_def validate_file_accepts[OF assms(1-3)] is_valid_content_def
      io_simps fst_ocr_fallback split: sum.splits exn.splits)

text \<open>What \<open>process\<close> does when the file is accepted and the loop raises.\<close>

lemma fst_process_loop_raises:
  assumes "path_exists w p = Inr True" and "st_size w p = Inr st"
    and "st \<le> MAX_FILE_SIZE cfg"
    and "pymupdf_open w p = Inr doc" and "int (length doc) \<le> MAX_FILE_PAGE cfg"
    and "fst (extract_pages doc [] []) = Inl x"
  shows "fst (process cfg w self p) =
     (case x of
        FileDataError m \<Rightarrow> Inl (InvalidDocumentError ''Invalid PDF structure: {e}'')
      | _ \<Rightarrow> Inl x)"
  using assms(4-6)
  by (simp add: process_def validate_file_accepts[OF assms(1-3)] io_simps
      split: sum.splits exn.splits)

section \<open>The claims about \<open>process\<close>\<close>

text \<open>
  C3, as amended. For every source path of which the existence test answers that there
  is no such file, \<open>process\<close> fails with the builtin \<open>FileNotFoundError\<close>, before
  anything is opened or logged; that failure is not an \<open>InvalidDocumentError\<close>, nor any
  \<open>DocumentProcessingError\<close>. When the existence test itself raises, \<open>process\<close> passes
  that exception on as it is. \<open>InvalidDocumentError\<close> is what \<open>process\<close> raises for a
  file above the size ceiling, for a file that opening finds malformed, and for a
  document above the page ceiling.
\<close>

theorem missing_file_raises_FileNotFoundError:
  "(path_exists w pdf_path = Inr False \<longrightarrow>
      process cfg w self pdf_path =
        (Inl (FileNotFoundError ''File not found: {pdf_path}''), [])
      \<and> \<not> is_InvalidDocumentError (FileNotFoundError ''File not found: {pdf_path}'')
      \<and> \<not> is_DocumentProcessingError (FileNotFoundError ''File not found: {pdf_path}''))
   \<and> (path_exists w pdf_path = Inl e \<longrightarrow> process cfg w self pdf_path = (Inl e, []))
   \<and> (path_exists w pdf_path = Inr True \<and> st_size w pdf_path = Inr st \<longrightarrow>
        (MAX_FILE_SIZE cfg < st \<longrightarrow>
           process cfg w self pdf_path =
             (Inl (InvalidDocumentError
                ''File size {pdf_path.stat().st_size} exceeds limit {AppConfig.MAX_FILE_SIZE} bytes.''),
              []))
        \<and> (st \<le> MAX_FILE_SIZE cfg \<and> pymupdf_open w pdf_path = Inl (FileDataError m) \<longrightarrow>
             process cfg w self pdf_path =
               (Inl (InvalidDocumentError ''Invalid PDF structure: {e}''), [Call Open]))
        \<and> (st \<le> MAX_FILE_SIZE cfg \<and> pymupdf_open w pdf_path = Inr doc
             \<and> MAX_FILE_PAGE cfg < int (length doc) \<longrightarrow>
             fst (process cfg w self pdf_path) =
               Inl (InvalidDocumentError
                  ''File page count exceeds limit {AppConfig.MAX_FILE_PAGE} pages.'')))"
proof (intro conjI impI)
  assume "path_exists w pdf_path = Inr False"
  then show "process cfg w self pdf_path =
      (Inl (FileNotFoundError ''File not found: {pdf_path}''), [])"
    by (simp add: process_def validate_file_def io_bind_def io_raise_def)
next
  show "\<not> is_InvalidDocumentError (FileNotFoundError ''File not found: {pdf_path}'')"
    by simp
next
  show "\<not> is_DocumentProcessingError (FileNotFoundError ''File not found: {pdf_path}'')"
    by (simp add: is_DocumentProcessingError_def)
next
  assume "path_exists w pdf_path = Inl e"
  then show "process cfg w self pdf_path = (Inl e, [])"
    by (simp add: process_def validate_file_def io_bind_def)
next
  assume "path_exists w pdf_path = Inr True \<and> st_size w pdf_path = Inr st"
    and "MAX_FILE_SIZE cfg < st"
  then show "process cfg w self pdf_path =
      (Inl (InvalidDocumentError
         ''File size {pdf_path.stat().st_size} exceeds limit {AppConfig.MAX_FILE_SIZE} bytes.''),
       [])"
    by (simp add: process_def validate_file_def io_bind_def io_raise_def)
next
  assume "path_exists w pdf_path = Inr True \<and> st_size w pdf_path = Inr st"
    and "st \<le> MAX_FILE_SIZE cfg \<and> pymupdf_open w pdf_path = Inl (FileDataError m)"
  then show "process cfg w self pdf_path =
      (Inl (InvalidDocumentError ''Invalid PDF structure: {e}''), [Call Open])"
    by (simp add: process_def validate_file_accepts io_bind_def io_raise_def io_call_def
        try_except_def)
next
  assume "path_exists w pdf_path = Inr True \<and> st_size w pdf_path = Inr st"
    and "st \<le> MAX_FILE_SIZE cfg \<and> pymupdf_open w pdf_path = Inr doc
         \<and> MAX_FILE_PAGE cfg < int (length doc)"
  then show "fst (process cfg w self pdf_path) =
      Inl (InvalidDocumentError
         ''File page count exceeds limit {AppConfig.MAX_FILE_PAGE} pages.'')"
    by (simp add: process_def validate_file_accepts io_simps)
qed

theorem missing_file_raises_FileNotFoundError_witness:
  "path_exists (world_with (Inr [Inr page_hello])) ''missing.pdf'' = Inr False
   \<and> process default_config (world_with (Inr [Inr page_hello])) accepting ''missing.pdf'' =
       (Inl (FileNotFoundError ''File not found: {pdf_path}''), [])
   \<and> process default_config (world_with (Inr [Inr page_hello])) accepting
         (replicate 300 (CHR ''a'')) =
       (Inl (OtherException ''OSError: [Errno 36] File name too long''), [])
   \<and> process default_config (world_with (Inr [Inr page_hello])) accepting ''huge.pdf'' =
       (Inl (InvalidDocumentError
          ''File size {pdf_path.stat().st_size} exceeds limit {AppConfig.MAX_FILE_SIZE} bytes.''),
        [])
   \<and> process default_config (world_with (Inl (FileDataError ''Failed to open file'')))
         accepting ''broken.pdf'' =
       (Inl (InvalidDocumentError ''Invalid PDF structure: {e}''), [Call Open])
   \<and> fst (process default_config (world_with (Inr (replicate 11 (Inr page_hello))))
            accepting ''long.pdf'') =
       Inl (InvalidDocumentError
          ''File page count exceeds limit {AppConfig.MAX_FILE_PAGE} pages.'')"
proof (intro conjI)
  show missing: "path_exists (world_with (Inr [Inr page_hello])) ''missing.pdf'' = Inr False"
    by (simp add: world_with_def)
  show "process default_config (world_with (Inr [Inr page_hello])) accepting ''missing.pdf'' =
      (Inl (FileNotFoundError ''File not found: {pdf_path}''), [])"
    by (rule missing_file_raises_FileNotFoundError
          [THEN conjunct1, THEN mp, THEN conjunct1, OF missing])
  show "process default_config (world_with (Inr [Inr page_hello])) accepting
         (replicate 300 (CHR ''a'')) =
       (Inl (OtherException ''OSError: [Errno 36] File name too long''), [])"
    by (rule missing_file_raises_FileNotFoundError
          [THEN conjunct2, THEN conjunct1, THEN mp])
       (simp add: world_with_def)
  show "process default_config (world_with (Inr [Inr page_hello])) accepting ''huge.pdf'' =
       (Inl (InvalidDocumentError
          ''File size {pdf_path.stat().st_size} exceeds limit {AppConfig.MAX_FILE_SIZE} bytes.''),
        [])"
    by (rule missing_file_raises_FileNotFoundError
          [where st = "3 * 1024 * 1024",
           THEN conjunct2, THEN conjunct2, THEN mp, THEN conjunct1, THEN mp])
       (simp_all add: world_with_def default_config_def)
  show "process default_config (world_with (Inl (FileDataError ''Failed to open file'')))
         accepting ''broken.pdf'' =
       (Inl (InvalidDocumentError ''Invalid PDF structure: {e}''), [Call Open])"
    by (rule missing_file_raises_FileNotFoundError
          [where st = 1000 and m = "''Failed to open file''",
           THEN conjunct2, THEN conjunct2, THEN mp, THEN conjunct2, THEN conjunct1, THEN mp])
       (simp_all add: world_with_def default_config_def)
  show "fst (process default_config (world_with (Inr (replicate 11 (Inr page_hello))))
            accepting ''long.pdf'') =
       Inl (InvalidDocumentError
          ''File page count exceeds limit {AppConfig.MAX_FILE_PAGE} pages.'')"
    by (rule missing_file_raises_FileNotFoundError
          [where st = 1000 and doc = "replicate 11 (Inr page_hello)",
           THEN conjunct2, THEN conjunct2, THEN mp, THEN conjunct2, THEN conjunct2, THEN mp])
       (simp_all add: world_with_def default_config_def)
qed

text \<open>
  C3 as stated fails: the existence test answers that \<^verbatim>\<open>missing.pdf\<close> does not exist,
  and what \<open>process\<close> raises for it is not an \<open>InvalidDocumentError\<close>.
\<close>

theorem missing_file_not_InvalidDocument_counterexample:
  "path_exists (world_with (Inr [Inr page_hello])) ''missing.pdf'' = Inr False
   \<and> fst (process default_config (world_with (Inr [Inr page_hello])) accepting
            ''missing.pdf'') =
       Inl (FileNotFoundError ''File not found: {pdf_path}'')
   \<and> \<not> is_InvalidDocumentError (FileNotFoundError ''File not found: {pdf_path}'')"
  by (simp add: process_def validate_file_def io_bind_def io_raise_def world_with_def)

text \<open>
  C4, as amended. Provided that the readability classifier, in a run that calls it,
  answers on the text it is given, every failure that \<open>process\<close> raises is an
  \<open>InvalidDocumentError\<close>, a \<open>ContentExtractionError\<close>, the builtin \<open>FileNotFoundError\<close>
  of a path that the existence test reports missing, or the exception of one of the
  calls that \<open>process\<close> makes outside its \<^verbatim>\<open>try\<close> blocks, passed on as it is: the
  existence test, the size query, and, unless it is a \<open>FileDataError\<close>, opening the
  document or loading one of its pages.
\<close>

theorem process_failures_categorized:
  assumes fails: "fst (process cfg w self pdf_path) = Inl e"
    and classifier:
      "\<forall>doc native imgs.
         Call Classifier \<in> set (snd (process cfg w self pdf_path))
         \<and> pymupdf_open w pdf_path = Inr doc
         \<and> fst (extract_pages doc [] []) = Inr (native, imgs)
         \<longrightarrow> (\<exists>valid. self_validate self native = Inr valid)"
  shows "is_InvalidDocumentError e \<or> is_ContentExtractionError e
         \<or> (path_exists w pdf_path = Inr False \<and> is_FileNotFoundError e)
         \<or> path_exists w pdf_path = Inl e
         \<or> st_size w pdf_path = Inl e
         \<or> (pymupdf_open w pdf_path = Inl e \<and> \<not> is_FileDataError e)
         \<or> (\<exists>doc. pymupdf_open w pdf_path = Inr doc \<and> Inl e \<in> set doc
               \<and> \<not> is_FileDataError e)"
proof (cases "fst (validate_file cfg w pdf_path)")
  case (Inl x)
  with fails have "x = e"
    by (simp add: process_def fst_io_bind)
  with Inl show ?thesis
    using validate_file_raises[of cfg w pdf_path e] by blast
next
  case (Inr u)
  then obtain st where accepted: "path_exists w pdf_path = Inr True"
      "st_size w pdf_path = Inr st" "st \<le> MAX_FILE_SIZE cfg"
    by (auto simp add: validate_file_def io_simps split: sum.splits if_splits)
  show ?thesis
  proof (cases "pymupdf_open w pdf_path")
    case (Inl x)
    with fails show ?thesis
      by (cases x)
         (auto simp add: process_def validate_file_accepts[OF accepted] io_simps)
  next
    case opened: (Inr doc)
    show ?thesis
    proof (cases "int (length doc) \<le> MAX_FILE_PAGE cfg")
      case False
      with fails opened show ?thesis
        by (auto simp add: process_def validate_file_accepts[OF accepted] io_simps)
    next
      case few: True
      show ?thesis
      proof (cases "fst (extract_pages doc [] [])")
        case (Inl x)
        then have source: "is_ContentExtractionError x \<or> Inl x \<in> set doc"
          by (rule extract_pages_raises)
        note raised = fails[unfolded fst_process_loop_raises[OF accepted opened few Inl]]
        with source opened show ?thesis
          by (cases x) auto
      next
        case (Inr extracted)
        obtain native imgs where "extracted = (native, imgs)"
          by (cases extracted)
        with Inr have loop: "fst (extract_pages doc [] []) = Inr (native, imgs)"
          by simp
        show ?thesis
        proof (cases "strip native = []")
          case True
          with fails show ?thesis
            by (auto simp add: fst_process_extracted[OF accepted opened few loop]
                split: sum.splits dest: ocr_fallback_raises)
        next
          case False
          then have "Call Classifier \<in> set (snd (process cfg w self pdf_path))"
            by (simp add: snd_process_extracted[OF accepted opened few loop])
          with classifier opened loop obtain valid where
            "self_validate self native = Inr valid"
            by blast
          with fails False show ?thesis
            by (auto simp add: fst_process_extracted[OF accepted opened few loop]
                split: if_splits sum.splits dest: ocr_fallback_raises)
        qed
      qed
    qed
  qed
qed

theorem process_failures_categorized_witness:
  "fst (process default_config (world_with (Inr [Inr page_hello])) ocr_failing ''hello.pdf'') =
     Inl (ContentExtractionError ''OCR extraction failed: {str(e)}'')
   \<and> Call Classifier \<in> set (snd (process default_config (world_with (Inr [Inr page_hello]))
                                     ocr_failing ''hello.pdf''))
   \<and> self_validate ocr_failing (''Hello'' @ newline) = Inr False
   \<and> is_ContentExtractionError (ContentExtractionError ''OCR extraction failed: {str(e)}'')
   \<and> \<not> is_InvalidDocumentError (ContentExtractionError ''OCR extraction failed: {str(e)}'')"
proof -
  have stripped: "strip ''  Hello '' = ''Hello''"
    by (simp add: strip_def lstrip_def rstrip_def isspace_def)
  have shown: "strip (''Hello'' @ newline) \<noteq> []"
    by (simp add: strip_empty_iff isspace_def)
  have run: "process default_config (world_with (Inr [Inr page_hello])) ocr_failing
               ''hello.pdf'' =
      (Inl (ContentExtractionError ''OCR extraction failed: {str(e)}''),
       [Call Open, Log INFO ''Extracting text and images from: {pdf_path}'',
        Call GetText, Call GetPixmap, Call Classifier,
        Log INFO ''Text extraction quality insufficient, attempting OCR extraction...'',
        Call Ocr, Log ERROR ''OCR extraction failed: {e}''])"
    using shown
    by (simp add: process_def validate_file_def io_return_def io_raise_def io_log_def
        io_call_def io_bind_def try_except_def world_with_def default_config_def
        extract_page_text_def render_page_image_def is_valid_content_def ocr_fallback_def
        page_hello_def ocr_failing_def stripped)
  have fails: "fst (process default_config (world_with (Inr [Inr page_hello])) ocr_failing
                 ''hello.pdf'') =
      Inl (ContentExtractionError ''OCR extraction failed: {str(e)}'')"
    by (simp add: run)
  have classifier: "\<forall>doc native imgs.
      Call Classifier \<in> set (snd (process default_config (world_with (Inr [Inr page_hello]))
                                    ocr_failing ''hello.pdf''))
      \<and> pymupdf_open (world_with (Inr [Inr page_hello])) ''hello.pdf'' = Inr doc
      \<and> fst (extract_pages doc [] []) = Inr (native, imgs)
      \<longrightarrow> (\<exists>valid. self_validate ocr_failing native = Inr valid)"
    by (auto simp add: ocr_failing_def)
  have called: "Call Classifier \<in> set (snd (process default_config
      (world_with (Inr [Inr page_hello])) ocr_failing ''hello.pdf''))"
    by (simp add: run)
  have answered: "self_validate ocr_failing (''Hello'' @ newline) = Inr False"
    by (simp add: ocr_failing_def)
  from process_failures_categorized [OF fails classifier]
  have "is_ContentExtractionError (ContentExtractionError ''OCR extraction failed: {str(e)}'')"
    by (simp add: world_with_def)
  with fails called answered show ?thesis
    by simp
qed

text \<open>
  C4 as stated fails. When the readability classifier raises, \<open>process\<close> passes that
  exception on as it is; for a path reported missing it raises the builtin
  \<open>FileNotFoundError\<close>; and when loading a page of an encrypted document raises,
  \<open>process\<close> passes that on too. None of the three is one of the two categorized
  failures.
\<close>

theorem process_failures_counterexample:
  "fst (process default_config (world_with (Inr [Inr page_hello])) failing ''hello.pdf'') =
     Inl (OtherException ''RateLimitError'')
   \<and> \<not> is_InvalidDocumentError (OtherException ''RateLimitError'')
   \<and> \<not> is_ContentExtractionError (OtherException ''RateLimitError'')
   \<and> fst (process default_config (world_with (Inr [Inr page_hello])) failing ''missing.pdf'') =
       Inl (FileNotFoundError ''File not found: {pdf_path}'')
   \<and> \<not> is_InvalidDocumentError (FileNotFoundError ''File not found: {pdf_path}'')
   \<and> \<not> is_ContentExtractionError (FileNotFoundError ''File not found: {pdf_path}'')
   \<and> fst (process default_config
            (world_with (Inr [Inl (OtherException ''ValueError: document closed or encrypted'')]))
            accepting ''secret.pdf'') =
       Inl (OtherException ''ValueError: document closed or encrypted'')
   \<and> \<not> is_InvalidDocumentError (OtherException ''ValueError: document closed or encrypted'')
   \<and> \<not> is_ContentExtractionError (OtherException ''ValueError: document closed or encrypted'')"
proof -
  have stripped: "strip ''  Hello '' = ''Hello''"
    by (simp add: strip_def lstrip_def rstrip_def isspace_def)
  have shown: "strip (''Hello'' @ newline) \<noteq> []"
    by (simp add: strip_empty_iff isspace_def)
  have classifier: "fst (process default_config (world_with (Inr [Inr page_hello])) failing
                      ''hello.pdf'') = Inl (OtherException ''RateLimitError'')"
    using shown
    by (simp add: process_def validate_file_def io_simps world_with_def default_config_def
        extract_page_text_def render_page_image_def is_valid_content_def page_hello_def
        failing_def stripped)
  have missing: "fst (process default_config (world_with (Inr [Inr page_hello])) failing
                   ''missing.pdf'') = Inl (FileNotFoundError ''File not found: {pdf_path}'')"
    by (simp add: process_def validate_file_def io_simps world_with_def)
  have encrypted: "fst (process default_config
      (world_with (Inr [Inl (OtherException ''ValueError: document closed or encrypted'')]))
      accepting ''secret.pdf'') =
      Inl (OtherException ''ValueError: document closed or encrypted'')"
    by (simp add: process_def validate_file_def io_simps world_with_def default_config_def)
  from classifier missing encrypted show ?thesis
    by simp
qed

text \<open>
  C5. Whenever the quality gate rejects the native text (it is empty once trimmed, or the
  classifier answers that it is not mostly readable), the text \<open>process\<close> returns is the
  text of the OCR capability, whatever the native text was and however long either is,
  and the images it returns are the rendered page images, in page order.
\<close>

theorem ocr_replaces_text_keeps_images:
  assumes "path_exists w pdf_path = Inr True" and "st_size w pdf_path = Inr st"
    and "st \<le> MAX_FILE_SIZE cfg"
    and "pymupdf_open w pdf_path = Inr (map Inr doc)"
    and "int (length doc) \<le> MAX_FILE_PAGE cfg"
    and texts: "map get_text doc = map Inr texts"
    and imgs: "map get_pixmap doc = map Inr imgs"
    and native: "native = concat (map (\<lambda>t. strip t @ newline) texts)"
    and rejected: "strip native = [] \<or> self_validate self native = Inr False"
    and ocr: "self_ocr self pdf_path = Inr ocr_text"
  shows "fst (process cfg w self pdf_path) = Inr (ocr_text, imgs)"
proof -
  have few: "int (length (map Inr doc :: (exn + 'a page) list)) \<le> MAX_FILE_PAGE cfg"
    using assms(5) by simp
  have loop: "fst (extract_pages (map Inr doc) [] []) = Inr (native, imgs)"
    using extract_pages_ok[OF texts imgs, of "[]" "[]"] native by simp
  show ?thesis
    using rejected ocr
    by (auto simp add: fst_process_extracted[OF assms(1-4) few loop] fst_ocr_fallback)
qed

theorem ocr_replaces_text_keeps_images_witness:
  "self_validate rejecting (concat (map (\<lambda>t. strip t @ newline) [''  Hello ''])) = Inr False
   \<and> self_ocr rejecting ''hello.pdf'' = Inr ''o''
   \<and> fst (process default_config (world_with (Inr [Inr page_hello])) rejecting
            ''hello.pdf'') = Inr (''o'', [1])"
proof -
  have rejected: "strip (concat (map (\<lambda>t. strip t @ newline) [''  Hello ''])) = []
      \<or> self_validate rejecting (concat (map (\<lambda>t. strip t @ newline) [''  Hello ''])) = Inr False"
    by (simp add: rejecting_def)
  have ocr: "self_ocr rejecting ''hello.pdf'' = Inr ''o''"
    by (simp add: rejecting_def)
  have "fst (process default_config (world_with (Inr (map Inr [page_hello]))) rejecting
          ''hello.pdf'') = Inr (''o'', [1])"
    by (rule ocr_replaces_text_keeps_images
          [where st = 1000 and doc = "[page_hello]" and texts = "[''  Hello '']"
             and imgs = "[1]",
           OF _ _ _ _ _ _ _ refl rejected ocr])
       (simp_all add: world_with_def default_config_def page_hello_def)
  with rejected ocr show ?thesis
    by (simp add: rejecting_def)
qed

text \<open>
  C6. For every document whose concatenated extracted text is empty once trimmed, the
  readability classifier is not called, the OCR capability is, and what \<open>process\<close>
  returns is decided by the OCR capability alone.
\<close>

theorem empty_text_skips_classifier:
  assumes "path_exists w pdf_path = Inr True" and "st_size w pdf_path = Inr st"
    and "st \<le> MAX_FILE_SIZE cfg"
    and "pymupdf_open w pdf_path = Inr (map Inr doc)"
    and "int (length doc) \<le> MAX_FILE_PAGE cfg"
    and texts: "map get_text doc = map Inr texts"
    and imgs: "map get_pixmap doc = map Inr imgs"
    and empty: "strip (concat (map (\<lambda>t. strip t @ newline) texts)) = []"
  shows "Call Classifier \<notin> set (snd (process cfg w self pdf_path))
         \<and> Call Ocr \<in> set (snd (process cfg w self pdf_path))
         \<and> fst (process cfg w self pdf_path) =
             (case self_ocr self pdf_path of
                Inl e \<Rightarrow> Inl (ContentExtractionError ''OCR extraction failed: {str(e)}'')
              | Inr t \<Rightarrow> Inr (t, imgs))"
proof -
  have few: "int (length (map Inr doc :: (exn + 'a page) list)) \<le> MAX_FILE_PAGE cfg"
    using assms(5) by simp
  have loop: "fst (extract_pages (map Inr doc) [] []) =
      Inr (concat (map (\<lambda>t. strip t @ newline) texts), imgs)"
    using extract_pages_ok[OF texts imgs, of "[]" "[]"] by simp
  have quiet: "Call Classifier \<notin> set (snd (extract_pages (map Inr doc) [] []))"
    using extract_pages_events[of Classifier "map Inr doc" "[]" "[]"] by auto
  show ?thesis
    using empty quiet
    by (auto simp add: fst_process_extracted[OF assms(1-4) few loop]
        snd_process_extracted[OF assms(1-4) few loop] fst_ocr_fallback snd_ocr_fallback
        split: sum.splits)
qed

theorem empty_text_skips_classifier_witness:
  "strip (concat (map (\<lambda>t. strip t @ newline) ['' ''])) = []
   \<and> Call Classifier \<notin> set (snd (process default_config (world_with (Inr [Inr page_blank]))
                                     accepting ''scan.pdf''))
   \<and> Call Ocr \<in> set (snd (process default_config (world_with (Inr [Inr page_blank]))
                                accepting ''scan.pdf''))
   \<and> fst (process default_config (world_with (Inr [Inr page_blank])) accepting ''scan.pdf'') =
       Inr (''ocr'', [2])"
proof -
  have blank: "strip '' '' = []"
    by (simp add: strip_def lstrip_def rstrip_def isspace_def)
  have empty: "strip (concat (map (\<lambda>t. strip t @ newline) ['' ''])) = []"
    by (simp add: blank) (simp add: strip_empty_iff newline_def isspace_def)
  have "Call Classifier \<notin> set (snd (process default_config
            (world_with (Inr (map Inr [page_blank]))) accepting ''scan.pdf''))
     \<and> Call Ocr \<in> set (snd (process default_config
            (world_with (Inr (map Inr [page_blank]))) accepting ''scan.pdf''))
     \<and> fst (process default_config (world_with (Inr (map Inr [page_blank]))) accepting
              ''scan.pdf'') =
         (case self_ocr accepting ''scan.pdf'' of
            Inl e \<Rightarrow> Inl (ContentExtractionError ''OCR extraction failed: {str(e)}'')
          | Inr t \<Rightarrow> Inr (t, [2]))"
    by (rule empty_text_skips_classifier
          [where st = 1000 and doc = "[page_blank]" and texts = "['' '']"
             and imgs = "[2]",
           OF _ _ _ _ _ _ _ empty])
       (simp_all add: world_with_def default_config_def page_blank_def)
  with empty show ?thesis
    by (simp add: accepting_def)
qed

text \<open>
  C7. For every PDF with more pages than the ceiling, \<open>process\<close> fails with
  \<open>InvalidDocumentError\<close> having opened the document and logged the error only: no page
  text is extracted and no page is rendered. A document with exactly as many pages as the
  ceiling passes the check: extraction starts, and \<open>process\<close> does what it does under
  any higher ceiling.
\<close>

theorem page_ceiling_fails_fast:
  assumes "path_exists w pdf_path = Inr True" and "st_size w pdf_path = Inr st"
    and "st \<le> MAX_FILE_SIZE cfg"
    and "pymupdf_open w pdf_path = Inr doc"
  shows "(int (length doc) > MAX_FILE_PAGE cfg \<longrightarrow>
            process cfg w self pdf_path =
              (Inl (InvalidDocumentError
                 ''File page count exceeds limit {AppConfig.MAX_FILE_PAGE} pages.''),
               [Call Open,
                Log ERROR ''File page count exceeds {AppConfig.MAX_FILE_PAGE} pages limit.''])
            \<and> Call GetText \<notin> set (snd (process cfg w self pdf_path))
            \<and> Call GetPixmap \<notin> set (snd (process cfg w self pdf_path)))
         \<and> (int (length doc) = MAX_FILE_PAGE cfg \<longrightarrow>
              (\<exists>r tr. process cfg w self pdf_path =
                 (r, Call Open # Log INFO ''Extracting text and images from: {pdf_path}'' # tr))
              \<and> (\<forall>m \<ge> MAX_FILE_PAGE cfg.
                   process (cfg\<lparr>MAX_FILE_PAGE := m\<rparr>) w self pdf_path =
                   process cfg w self pdf_path))"
proof (intro conjI impI allI)
  note accepted = validate_file_accepts[OF assms(1-3)]
  assume "int (length doc) > MAX_FILE_PAGE cfg"
  with assms(4) show over: "process cfg w self pdf_path =
      (Inl (InvalidDocumentError
         ''File page count exceeds limit {AppConfig.MAX_FILE_PAGE} pages.''),
       [Call Open,
        Log ERROR ''File page count exceeds {AppConfig.MAX_FILE_PAGE} pages limit.''])"
    by (simp add: process_def accepted io_return_def io_raise_def io_log_def
        io_call_def io_bind_def try_except_def)
  show "Call GetText \<notin> set (snd (process cfg w self pdf_path))"
    by (simp add: over)
  show "Call GetPixmap \<notin> set (snd (process cfg w self pdf_path))"
    by (simp add: over)
next
  note accepted = validate_file_accepts[OF assms(1-3)]
  assume "int (length doc) = MAX_FILE_PAGE cfg"
  with assms(4) show "\<exists>r tr. process cfg w self pdf_path =
      (r, Call Open # Log INFO ''Extracting text and images from: {pdf_path}'' # tr)"
    by (simp add: process_def accepted io_return_def io_raise_def io_log_def
        io_call_def io_bind_def try_except_def split: prod.splits sum.splits)
next
  fix m
  note accepted = validate_file_accepts[OF assms(1-3)]
  have accepted': "validate_file (cfg\<lparr>MAX_FILE_PAGE := m\<rparr>) w pdf_path = (Inr (), [])"
    using assms(1-3) by (simp add: validate_file_def io_bind_def io_return_def)
  assume "int (length doc) = MAX_FILE_PAGE cfg" and "MAX_FILE_PAGE cfg \<le> m"
  with assms(4) show "process (cfg\<lparr>MAX_FILE_PAGE := m\<rparr>) w self pdf_path =
      process cfg w self pdf_path"
    by (simp add: process_def accepted accepted' io_call_def io_bind_def try_except_def)
qed

theorem page_ceiling_fails_fast_witness:
  "process default_config (world_with (Inr (replicate 11 (Inr page_hello)))) accepting
       ''long.pdf'' =
     (Inl (InvalidDocumentError
        ''File page count exceeds limit {AppConfig.MAX_FILE_PAGE} pages.''),
      [Call Open,
       Log ERROR ''File page count exceeds {AppConfig.MAX_FILE_PAGE} pages limit.''])
   \<and> (\<exists>r tr. process default_config (world_with (Inr (replicate 10 (Inr page_hello))))
                 accepting ''ten.pdf'' =
         (r, Call Open # Log INFO ''Extracting text and images from: {pdf_path}'' # tr))"
proof (rule conjI)
  show "process default_config (world_with (Inr (replicate 11 (Inr page_hello)))) accepting
          ''long.pdf'' =
     (Inl (InvalidDocumentError
        ''File page count exceeds limit {AppConfig.MAX_FILE_PAGE} pages.''),
      [Call Open,
       Log ERROR ''File page count exceeds {AppConfig.MAX_FILE_PAGE} pages limit.''])"
    by (rule page_ceiling_fails_fast
          [where st = 1000 and doc = "replicate 11 (Inr page_hello)",
           THEN conjunct1, THEN mp, THEN conjunct1])
       (simp_all add: world_with_def default_config_def)
  show "\<exists>r tr. process default_config (world_with (Inr (replicate 10 (Inr page_hello))))
                 accepting ''ten.pdf'' =
         (r, Call Open # Log INFO ''Extracting text and images from: {pdf_path}'' # tr)"
    by (rule page_ceiling_fails_fast
          [where st = 1000 and doc = "replicate 10 (Inr page_hello)",
           THEN conjunct2, THEN mp, THEN conjunct1])
       (simp_all add: world_with_def default_config_def)
qed

text \<open>
  C9. For every valid single-page PDF whose page text is not blank and is accepted by the
  classifier, \<open>process\<close> returns the trimmed page text followed by one newline, which is
  not empty, and exactly one image.
\<close>

theorem single_page_native_text:
  assumes "path_exists w pdf_path = Inr True" and "st_size w pdf_path = Inr st"
    and "st \<le> MAX_FILE_SIZE cfg"
    and "pymupdf_open w pdf_path = Inr [Inr page]" and "1 \<le> MAX_FILE_PAGE cfg"
    and page_text: "get_text page = Inr raw" and page_img: "get_pixmap page = Inr img"
    and extractable: "strip raw \<noteq> []"
    and accepted: "self_validate self (strip raw @ newline) = Inr True"
  shows "\<exists>images. fst (process cfg w self pdf_path) = Inr (strip raw @ newline, images)
           \<and> length images = 1 \<and> strip raw @ newline \<noteq> []"
proof -
  have loop: "fst (extract_pages [Inr page] [] []) = Inr (strip raw @ newline, [img])"
    using extract_pages_ok[of "[page]" "[raw]" "[img]" "[]" "[]"] page_text page_img by simp
  have few: "int (length [Inr page :: exn + 'a page]) \<le> MAX_FILE_PAGE cfg"
    using assms(5) by simp
  have "fst (process cfg w self pdf_path) = Inr (strip raw @ newline, [img])"
    using extractable accepted
    by (simp add: fst_process_extracted[OF assms(1-4) few loop] strip_strip_newline)
  then show ?thesis
    by (simp add: newline_def)
qed

theorem single_page_native_text_witness:
  "strip ''  Hello '' \<noteq> []
   \<and> (\<exists>images. fst (process default_config (world_with (Inr [Inr page_hello])) accepting
                      ''hello.pdf'') = Inr (''Hello'' @ newline, images)
         \<and> length images = 1)"
proof -
  have stripped: "strip ''  Hello '' = ''Hello''"
    by (simp add: strip_def lstrip_def rstrip_def isspace_def)
  have "\<exists>images. fst (process default_config (world_with (Inr [Inr page_hello])) accepting
                      ''hello.pdf'') = Inr (strip ''  Hello '' @ newline, images)
           \<and> length images = 1 \<and> strip ''  Hello '' @ newline \<noteq> []"
    by (rule single_page_native_text
          [where st = 1000 and page = page_hello and raw = "''  Hello ''" and img = 1])
       (simp_all add: stripped world_with_def default_config_def page_hello_def accepting_def)
  then show ?thesis
    by (simp add: stripped)
qed

text \<open>
  C10. On the native path (every page answers, the gate accepts the text), the text
  \<open>process\<close> returns is the concatenation, in page order, of each trimmed page text
  followed by one newline, and the OCR capability is not called. Each page contributes
  its newline even when its text is empty, so this text is at least as long as the
  document has pages, and is not empty for a document of one page or more.
\<close>

theorem native_text_is_concatenation:
  assumes "path_exists w pdf_path = Inr True" and "st_size w pdf_path = Inr st"
    and "st \<le> MAX_FILE_SIZE cfg"
    and "pymupdf_open w pdf_path = Inr (map Inr doc)"
    and "int (length doc) \<le> MAX_FILE_PAGE cfg"
    and pages: "doc \<noteq> []"
    and texts: "map get_text doc = map Inr texts"
    and imgs: "map get_pixmap doc = map Inr imgs"
    and native: "native = concat (map (\<lambda>t. strip t @ newline) texts)"
    and accepted: "strip native \<noteq> []" "self_validate self native = Inr True"
  shows "fst (process cfg w self pdf_path) = Inr (native, imgs)
         \<and> Call Ocr \<notin> set (snd (process cfg w self pdf_path))
         \<and> length doc \<le> length native \<and> native \<noteq> []"
proof -
  have few: "int (length (map Inr doc :: (exn + 'a page) list)) \<le> MAX_FILE_PAGE cfg"
    using assms(5) by simp
  have loop: "fst (extract_pages (map Inr doc) [] []) = Inr (native, imgs)"
    using extract_pages_ok[OF texts imgs, of "[]" "[]"] native by simp
  have quiet: "Call Ocr \<notin> set (snd (extract_pages (map Inr doc) [] []))"
    using extract_pages_events[of Ocr "map Inr doc" "[]" "[]"] by auto
  have "length texts = length doc"
    using texts by (metis length_map)
  then have long: "length doc \<le> length native"
    using length_concat_newline[of texts] native by simp
  with pages have "native \<noteq> []"
    by (cases doc) auto
  with long quiet accepted show ?thesis
    by (simp add: fst_process_extracted[OF assms(1-4) few loop]
        snd_process_extracted[OF assms(1-4) few loop])
qed

theorem native_text_is_concatenation_witness:
  "[page_hello, page_blank] \<noteq> []
   \<and> fst (process default_config (world_with (Inr [Inr page_hello, Inr page_blank]))
            accepting ''two.pdf'') = Inr (''Hello'' @ newline @ newline, [1, 2])
   \<and> Call Ocr \<notin> set (snd (process default_config
                              (world_with (Inr [Inr page_hello, Inr page_blank]))
                              accepting ''two.pdf''))"
proof -
  have stripped: "strip ''  Hello '' = ''Hello''" "strip '' '' = []"
    by (simp_all add: strip_def lstrip_def rstrip_def isspace_def)
  have native: "''Hello'' @ newline @ newline =
      concat (map (\<lambda>t. strip t @ newline) [''  Hello '', '' ''])"
    by (simp add: stripped)
  have accepted: "strip (''Hello'' @ newline @ newline) \<noteq> []"
    by (simp add: strip_empty_iff isspace_def)
  have "fst (process default_config (world_with (Inr (map Inr [page_hello, page_blank])))
               accepting ''two.pdf'') = Inr (''Hello'' @ newline @ newline, [1, 2])
     \<and> Call Ocr \<notin> set (snd (process default_config
                              (world_with (Inr (map Inr [page_hello, page_blank])))
                              accepting ''two.pdf''))
     \<and> length [page_hello, page_blank] \<le> length (''Hello'' @ newline @ newline)
     \<and> ''Hello'' @ newline @ newline \<noteq> []"
    by (rule native_text_is_concatenation
          [where st = 1000 and doc = "[page_hello, page_blank]"
             and texts = "[''  Hello '', '' '']" and imgs = "[1, 2]",
           OF _ _ _ _ _ _ _ _ native accepted])
       (simp_all add: world_with_def default_config_def page_hello_def page_blank_def
          accepting_def)
  then show ?thesis
    by simp
qed

section \<open>Facts about the analysis stages\<close>

text \<open>Each stage returns, whatever its capability answers, and calls that capability only.\<close>

lemma analyze_text_returns:
  "fst (analyze_text self text) =
     Inr (case self_analyze_text self text of
            Inl e \<Rightarrow> \<lparr>description = ''unknown'', summary = ''Text analysis unavailable'',
                       notable_info = [], text_quality = Unusable\<rparr>
          | Inr r \<Rightarrow> r)"
  by (simp add: analyze_text_def io_simps split: sum.splits)

lemma analyze_text_events:
  "Call c \<in> set (snd (analyze_text self text)) \<Longrightarrow> c = TextAnalysis"
  by (auto simp add: analyze_text_def io_simps split: sum.splits)

lemma analyze_images_returns: "\<exists>r. fst (analyze_images self images) = Inr r"
  by (simp add: analyze_images_def io_simps split: sum.splits)

lemma analyze_images_events:
  "Call c \<in> set (snd (analyze_images self images)) \<Longrightarrow> c = ImageAnalysis"
  by (auto simp add: analyze_images_def io_simps split: sum.splits)

lemma combine_results_returns: "\<exists>r. fst (combine_results self r_text r_images) = Inr r"
  by (simp add: combine_results_def io_simps split: sum.splits)

lemma combine_results_unusable:
  "text_quality r_text = Unusable \<Longrightarrow>
   combine_results self r_text r_images =
     (Inr r_images,
      [Log INFO ''Combining analysis results...'',
       Log WARNING ''Extracted text unsusable, only using visual analysis results.''])"
  by (simp add: combine_results_def io_return_def io_log_def io_bind_def try_except_def)

lemma validate_results_returns:
  "\<exists>v. fst (validate_results self text images r_combined) = Inr v"
  by (simp add: validate_results_def io_simps Let_def split: sum.splits)

lemma validate_results_events:
  "Call c \<in> set (snd (validate_results self text images r_combined)) \<Longrightarrow> c = Validation"
  by (auto simp add: validate_results_def io_simps Let_def split: sum.splits)

text \<open>\<open>forward\<close> in terms of what its four stages return.\<close>

lemma forward_stages:
  assumes "fst (analyze_text self text) = Inr r_text"
    and "fst (analyze_images self images) = Inr r_images"
    and "fst (combine_results self r_text r_images) = Inr r_combined"
    and "fst (validate_results self text images r_combined) = Inr r_validation"
  shows "forward cfg self text images =
     (Inr (format_output r_combined r_validation),
      (snd (analyze_text self text) @ snd (analyze_images self images)
       @ snd (combine_results self r_text r_images)
       @ snd (validate_results self text images r_combined))
      @ (if confidence_score r_validation < MIN_CONFIDENCE cfg then
           [Log WARNING
              ''Confidence score {validation_results.confidence_score} lower than threshhold {AppConfig.MIN_CONFIDENCE}'']
         else []))"
  using assms
  by (intro prod_eqI) (simp_all add: forward_def io_simps)

section \<open>The claims about \<open>forward\<close>\<close>

text \<open>
  C1. For every text and every image sequence, and whatever each of the four inference
  contracts answers (a value or an exception), \<open>forward\<close> returns and does not raise;
  what it returns is a dictionary with exactly the keys \<^verbatim>\<open>description\<close>,
  \<^verbatim>\<open>summary\<close>, \<^verbatim>\<open>notable_info\<close> and \<^verbatim>\<open>confidence\<close>, the last a dictionary with
  exactly the keys \<^verbatim>\<open>score\<close> and \<^verbatim>\<open>notes\<close>.
\<close>

theorem forward_always_returns_record:
  "\<exists>r tr c. forward cfg self text images = (Inr r, tr)
     \<and> keys r = [''description'', ''summary'', ''notable_info'', ''confidence'']
     \<and> lookup r ''confidence'' = Some c
     \<and> keys c = [''score'', ''notes'']"
proof -
  obtain r_text where 1: "fst (analyze_text self text) = Inr r_text"
    using analyze_text_returns by blast
  obtain r_images where 2: "fst (analyze_images self images) = Inr r_images"
    using analyze_images_returns by blast
  obtain r_combined where 3: "fst (combine_results self r_text r_images) = Inr r_combined"
    using combine_results_returns by blast
  obtain r_validation where
    4: "fst (validate_results self text images r_combined) = Inr r_validation"
    using validate_results_returns by blast
  show ?thesis
    by (simp add: forward_stages[OF 1 2 3 4] format_output_def)
qed

theorem forward_always_returns_record_witness:
  "\<exists>r tr c. forward default_config text_failing ''no text'' [1, 2] = (Inr r, tr)
     \<and> keys r = [''description'', ''summary'', ''notable_info'', ''confidence'']
     \<and> lookup r ''confidence'' = Some c
     \<and> keys c = [''score'', ''notes'']"
  by (rule forward_always_returns_record)

text \<open>
  C2. Whenever the text-analysis result has quality \<open>Unusable\<close>, which it has in
  particular when the text-analysis contract fails and the placeholder stands in, the
  fusion stage returns the image-analysis result itself, the fusion contract is not
  called, and description, summary and notable facts of the final record are those of
  the image-analysis result.
\<close>

theorem unusable_text_passes_images_through:
  assumes text_stage: "fst (analyze_text self text) = Inr r_text"
    and unusable: "text_quality r_text = Unusable \<or> (\<exists>e. self_analyze_text self text = Inl e)"
    and image_stage: "fst (analyze_images self images) = Inr r_images"
  shows "text_quality r_text = Unusable
         \<and> combine_results self r_text r_images =
             (Inr r_images,
              [Log INFO ''Combining analysis results...'',
               Log WARNING ''Extracted text unsusable, only using visual analysis results.''])
         \<and> Call Fusion \<notin> set (snd (forward cfg self text images))
         \<and> (\<exists>v. fst (forward cfg self text images) = Inr (format_output r_images v))"
proof -
  have quality: "text_quality r_text = Unusable"
    using unusable text_stage by (auto simp add: analyze_text_returns)
  note fused = combine_results_unusable[OF quality, of self r_images]
  have 3: "fst (combine_results self r_text r_images) = Inr r_images"
    by (simp add: fused)
  obtain r_validation where
    4: "fst (validate_results self text images r_images) = Inr r_validation"
    using validate_results_returns by blast
  have "Call Fusion \<notin> set (snd (forward cfg self text images))"
    using analyze_text_events[of Fusion self "text"] analyze_images_events[of Fusion self images]
      validate_results_events[of Fusion self "text" images r_images]
    by (auto simp add: forward_stages[OF text_stage image_stage 3 4] fused)
  moreover have "fst (forward cfg self text images) = Inr (format_output r_images r_validation)"
    by (simp add: forward_stages[OF text_stage image_stage 3 4])
  ultimately show ?thesis
    using quality fused by blast
qed

theorem unusable_text_passes_images_through_witness:
  "(\<exists>e. self_analyze_text text_failing ''no text'' = Inl e)
   \<and> fst (analyze_images text_failing [1, 2]) = Inr image_answer
   \<and> Call Fusion \<notin> set (snd (forward default_config text_failing ''no text'' [1, 2]))
   \<and> (\<exists>v. fst (forward default_config text_failing ''no text'' [1, 2]) =
             Inr (format_output image_answer v))"
proof -
  have text_stage: "fst (analyze_text text_failing ''no text'') =
      Inr \<lparr>description = ''unknown'', summary = ''Text analysis unavailable'',
           notable_info = [], text_quality = Unusable\<rparr>"
    by (simp add: analyze_text_returns text_failing_def)
  have failed: "\<exists>e. self_analyze_text text_failing ''no text'' = Inl e"
    by (simp add: text_failing_def)
  have image_stage: "fst (analyze_images text_failing [1, 2]) = Inr image_answer"
    by (simp add: analyze_images_def io_simps text_failing_def)
  show ?thesis
    using failed image_stage
      unusable_text_passes_images_through
        [OF text_stage disjI2 [OF failed] image_stage, of default_config]
    by blast
qed

text \<open>
  C8. The record \<open>forward\<close> returns is built from the fused result and the validation
  result alone, and the events before the threshold test do not depend on the threshold:
  a confidence score below \<open>MIN_CONFIDENCE\<close> adds one warning to the log and changes
  nothing of the record.
\<close>

theorem low_confidence_only_warns:
  "\<exists>c v tr. fst (validate_results self text images c) = Inr v
     \<and> (\<forall>cfg. forward cfg self text images =
           (Inr (format_output c v),
            tr @ (if confidence_score v < MIN_CONFIDENCE cfg then
                    [Log WARNING
                       ''Confidence score {validation_results.confidence_score} lower than threshhold {AppConfig.MIN_CONFIDENCE}'']
                  else [])))"
proof -
  obtain r_text where 1: "fst (analyze_text self text) = Inr r_text"
    using analyze_text_returns by blast
  obtain r_images where 2: "fst (analyze_images self images) = Inr r_images"
    using analyze_images_returns by blast
  obtain r_combined where 3: "fst (combine_results self r_text r_images) = Inr r_combined"
    using combine_results_returns by blast
  obtain r_validation where
    4: "fst (validate_results self text images r_combined) = Inr r_validation"
    using validate_results_returns by blast
  show ?thesis
    using 4 forward_stages[OF 1 2 3 4] by blast
qed

theorem low_confidence_only_warns_witness:
  "MIN_CONFIDENCE default_config = 0.6
   \<and> Log WARNING
        ''Confidence score {validation_results.confidence_score} lower than threshhold {AppConfig.MIN_CONFIDENCE}''
       \<in> set (snd (forward default_config text_failing ''no text'' [1, 2]))
   \<and> Log WARNING
        ''Confidence score {validation_results.confidence_score} lower than threshhold {AppConfig.MIN_CONFIDENCE}''
       \<notin> set (snd (forward (default_config\<lparr>MIN_CONFIDENCE := 0.2\<rparr>) text_failing
                        ''no text'' [1, 2]))
   \<and> fst (forward default_config text_failing ''no text'' [1, 2]) =
       fst (forward (default_config\<lparr>MIN_CONFIDENCE := 0.2\<rparr>) text_failing ''no text'' [1, 2])"
proof -
  obtain c v tr where run: "\<forall>cfg. forward cfg text_failing ''no text'' [1, 2] =
      (Inr (format_output c v),
       tr @ (if confidence_score v < MIN_CONFIDENCE cfg then
               [Log WARNING
                  ''Confidence score {validation_results.confidence_score} lower than threshhold {AppConfig.MIN_CONFIDENCE}'']
             else []))"
    using low_confidence_only_warns[of text_failing "''no text''" "[1, 2]"] by blast
  have same: "fst (forward default_config text_failing ''no text'' [1, 2]) =
      fst (forward (default_config\<lparr>MIN_CONFIDENCE := 0.2\<rparr>) text_failing ''no text'' [1, 2])"
    by (simp only: run [rule_format] fst_conv)
  have low: "snd (forward default_config text_failing ''no text'' [1, 2]) =
      [Log INFO ''Starting analysis from text modality...'', Call TextAnalysis,
       Log ERROR ''Text analysis failed: {e}'',
       Log INFO ''Starting analysis from image modality...'', Call ImageAnalysis,
       Log INFO ''Combining analysis results...'',
       Log WARNING ''Extracted text unsusable, only using visual analysis results.'',
       Call Validation,
       Log WARNING
         ''Confidence score {validation_results.confidence_score} lower than threshhold {AppConfig.MIN_CONFIDENCE}'']"
    by (simp add: forward_def analyze_text_def analyze_images_def combine_results_def
        validate_results_def io_simps text_failing_def default_config_def)
  have high: "snd (forward (default_config\<lparr>MIN_CONFIDENCE := 0.2\<rparr>) text_failing
                     ''no text'' [1, 2]) =
      [Log INFO ''Starting analysis from text modality...'', Call TextAnalysis,
       Log ERROR ''Text analysis failed: {e}'',
       Log INFO ''Starting analysis from image modality...'', Call ImageAnalysis,
       Log INFO ''Combining analysis results...'',
       Log WARNING ''Extracted text unsusable, only using visual analysis results.'',
       Call Validation]"
    by (simp add: forward_def analyze_text_def analyze_images_def combine_results_def
        validate_results_def io_simps text_failing_def default_config_def)
  have threshold: "MIN_CONFIDENCE default_config = 0.6"
    by (simp add: default_config_def)
  have warned: "Log WARNING
        ''Confidence score {validation_results.confidence_score} lower than threshhold {AppConfig.MIN_CONFIDENCE}''
       \<in> set (snd (forward default_config text_failing ''no text'' [1, 2]))"
    unfolding low by simp
  have silent: "Log WARNING
        ''Confidence score {validation_results.confidence_score} lower than threshhold {AppConfig.MIN_CONFIDENCE}''
       \<notin> set (snd (forward (default_config\<lparr>MIN_CONFIDENCE := 0.2\<rparr>) text_failing
                        ''no text'' [1, 2]))"
    unfolding high by simp
  from threshold warned silent same show ?thesis
    by (intro conjI)
qed

end
